theory Spec2Isabelle
  imports Main
begin

section \<open>JavaScript values held in the Redux state\<close>

text \<open>
  The store's state is a plain JavaScript object; \<open>App\<close> reads one property of it and
  uses the value only as the condition of two conditional expressions, so what matters
  about a value is the result of JavaScript's \<open>ToBoolean\<close>. Numbers are kept as
  integers next to a separate \<open>NaN\<close>: the only falsy numbers are zero and \<open>NaN\<close>.
\<close>

datatype jsval =
    JUndefined
  | JNull
  | JBool bool
  | JNum int
  | JNaN
  | JStr string
  | JArr "jsval list"
  | JObj "(string \<times> jsval) list"

text \<open>\<open>ToBoolean\<close>: the condition of \<open>c ? a : b\<close> and the operand of \<open>!c\<close>.\<close>

fun truthy :: "jsval \<Rightarrow> bool" where
  "truthy JUndefined = False"
| "truthy JNull = False"
| "truthy (JBool b) = b"
| "truthy (JNum n) = (n \<noteq> 0)"
| "truthy JNaN = False"
| "truthy (JStr s) = (s \<noteq> [])"
| "truthy (JArr xs) = True"
| "truthy (JObj kvs) = True"

text \<open>The state object: property names to values; an absent property reads as \<open>undefined\<close>.\<close>

type_synonym state = "string \<rightharpoonup> jsval"

definition getprop :: "state \<Rightarrow> string \<Rightarrow> jsval" where
  "getprop obj k = (case obj k of None \<Rightarrow> JUndefined | Some v \<Rightarrow> v)"

section \<open>The App component (src/App.jsx)\<close>

text \<open>
  What a route shows: one of the two pages, or a \<open>Navigate\<close> element carrying the
  location it redirects to.
\<close>

datatype element = Profile | SignIn | Navigate string

record route =
  exact :: bool
  path :: string
  element :: element

text \<open>\<open>useSelector((state) => state.isLoggedIn)\<close>\<close>

definition useSelector_isLoggedIn :: "state \<Rightarrow> jsval" where
  "useSelector_isLoggedIn state = getprop state ''isLoggedIn''"

text \<open>
  \<open>App\<close> returns the children of \<open>Routes\<close>, in the order written: the route
  \<open>/\<close> (with \<open>exact\<close>) and the route \<open>signin\<close>.
\<close>

definition App :: "state \<Rightarrow> route list" where
  "App state =
     (let isLoggedIn = useSelector_isLoggedIn state in
      [\<lparr>exact = True, path = ''/'',
        element = (if truthy isLoggedIn then Profile else Navigate ''/signin'')\<rparr>,
       \<lparr>exact = False, path = ''signin'',
        element = (if \<not> truthy isLoggedIn then SignIn else Navigate ''/'')\<rparr>])"

text \<open>The element of the route declared with a given path.\<close>

definition element_at :: "route list \<Rightarrow> string \<Rightarrow> element option" where
  "element_at routes p = map_option element (find (\<lambda>r. path r = p) routes)"

text \<open>The pages a route table can show at all: the elements that are not redirects.\<close>

fun is_page :: "element \<Rightarrow> bool" where
  "is_page (Navigate to) = False"
| "is_page Profile = True"
| "is_page SignIn = True"

definition pages :: "route list \<Rightarrow> element list" where
  "pages routes = filter is_page (map element routes)"

section \<open>Following redirects\<close>

text \<open>
  Which route a location selects is decided by the router, which is not part of this
  program, so the matching relation is a parameter \<open>matches pattern location\<close>.
  \<open>show_at\<close> renders a location: the first matching route's element is shown, a
  \<open>Navigate\<close> moves to its target and renders again. The fuel bounds the number of
  redirects followed; \<open>None\<close> means the fuel ran out.
\<close>

datatype screen = Blank | Page element

fun show_at :: "(string \<Rightarrow> string \<Rightarrow> bool) \<Rightarrow> nat \<Rightarrow> route list \<Rightarrow> string \<Rightarrow> screen option" where
  "show_at matches 0 routes loc = None"
| "show_at matches (Suc fuel) routes loc =
     (case find (\<lambda>r. matches (path r) loc) routes of
        None \<Rightarrow> Some Blank
      | Some r \<Rightarrow>
          (case element r of
             Navigate to \<Rightarrow> show_at matches fuel routes to
           | page \<Rightarrow> Some (Page page)))"

text \<open>
  A concrete matching relation for top-level routes: a pattern and a location agree when
  they are equal up to leading slashes, so that the relative pattern \<open>signin\<close> selects
  the location \<open>/signin\<close>.
\<close>

definition strip_slashes :: "string \<Rightarrow> string" where
  "strip_slashes p = dropWhile (\<lambda>c. c = CHR ''/'') p"

definition matches_top :: "string \<Rightarrow> string \<Rightarrow> bool" where
  "matches_top pattern loc = (strip_slashes pattern = strip_slashes loc)"

section \<open>Properties of App\<close>

lemma element_at_root:
  "element_at (App state) ''/'' =
     Some (if truthy (useSelector_isLoggedIn state) then Profile else Navigate ''/signin'')"
  by (simp add: element_at_def App_def Let_def)

lemma element_at_signin:
  "element_at (App state) ''signin'' =
     Some (if truthy (useSelector_isLoggedIn state) then Navigate ''/'' else SignIn)"
  by (simp add: element_at_def App_def Let_def)

lemma pages_App:
  "pages (App state) = [if truthy (useSelector_isLoggedIn state) then Profile else SignIn]"
  by (simp add: pages_def App_def Let_def)

lemma App_cong:
  "truthy (useSelector_isLoggedIn s') = truthy (useSelector_isLoggedIn s) \<Longrightarrow> App s' = App s"
  by (simp add: App_def Let_def)

text \<open>
  With any matching relation under which \<open>/\<close> and \<open>/signin\<close> select their own route
  and not the other one, both locations settle on the same page after at most one
  redirect: \<open>Profile\<close> when logged in, \<open>SignIn\<close> otherwise.
\<close>

lemma show_at_App:
  assumes "matches ''/'' ''/''" and "matches ''signin'' ''/signin''"
    and "\<not> matches ''/'' ''/signin''"
  shows "show_at matches 2 (App state) ''/'' =
           Some (Page (if truthy (useSelector_isLoggedIn state) then Profile else SignIn))"
    and "show_at matches 2 (App state) ''/signin'' =
           Some (Page (if truthy (useSelector_isLoggedIn state) then Profile else SignIn))"
  using assms by (simp_all add: numeral_2_eq_2 App_def Let_def)

lemma show_at_App_top:
  "show_at matches_top 2 (App state) ''/'' =
     Some (Page (if truthy (useSelector_isLoggedIn state) then Profile else SignIn))"
  "show_at matches_top 2 (App state) ''/signin'' =
     Some (Page (if truthy (useSelector_isLoggedIn state) then Profile else SignIn))"
  by (rule show_at_App; simp add: matches_top_def strip_slashes_def)+

text \<open>
  C10. For every application state, what \<open>App\<close> shows is determined by
  \<open>state.isLoggedIn\<close> alone. When it is truthy, the route \<open>/\<close> renders
  \<open>Profile\<close> and the route \<open>signin\<close> redirects to \<open>/\<close>; when it is falsy, the
  route \<open>/\<close> redirects to \<open>/signin\<close> and the route \<open>signin\<close> renders \<open>SignIn\<close>.
  So the route table holds exactly one page, \<open>Profile\<close> or \<open>SignIn\<close> according to
  \<open>isLoggedIn\<close>, and any state with the same truth value of \<open>isLoggedIn\<close> yields the
  same routes.
\<close>

theorem App_determined_by_isLoggedIn:
  "(truthy (useSelector_isLoggedIn state) \<longrightarrow>
      element_at (App state) ''/'' = Some Profile \<and>
      element_at (App state) ''signin'' = Some (Navigate ''/'') \<and>
      pages (App state) = [Profile]) \<and>
   (\<not> truthy (useSelector_isLoggedIn state) \<longrightarrow>
      element_at (App state) ''/'' = Some (Navigate ''/signin'') \<and>
      element_at (App state) ''signin'' = Some SignIn \<and>
      pages (App state) = [SignIn]) \<and>
   (\<forall>s'. truthy (useSelector_isLoggedIn s') = truthy (useSelector_isLoggedIn state) \<longrightarrow>
      App s' = App state)"
proof (intro conjI impI allI)
  assume "truthy (useSelector_isLoggedIn state)"
  then show "element_at (App state) ''/'' = Some Profile"
    and "element_at (App state) ''signin'' = Some (Navigate ''/'')"
    and "pages (App state) = [Profile]"
    by (simp_all add: element_at_root element_at_signin pages_App)
next
  assume "\<not> truthy (useSelector_isLoggedIn state)"
  then show "element_at (App state) ''/'' = Some (Navigate ''/signin'')"
    and "element_at (App state) ''signin'' = Some SignIn"
    and "pages (App state) = [SignIn]"
    by (simp_all add: element_at_root element_at_signin pages_App)
next
  fix s'
  assume "truthy (useSelector_isLoggedIn s') = truthy (useSelector_isLoggedIn state)"
  then show "App s' = App state"
    by (rule App_cong)
qed

text \<open>
  The theorem at two concrete states: one whose \<open>isLoggedIn\<close> is \<open>true\<close>, compared
  with a state holding the truthy string \<open>yes\<close> and a further property, and the empty
  state, where \<open>isLoggedIn\<close> is \<open>undefined\<close>, compared with a state holding \<open>0\<close>.
\<close>

theorem App_determined_by_isLoggedIn_witness:
  "truthy (useSelector_isLoggedIn [''isLoggedIn'' \<mapsto> JBool True]) \<and>
   element_at (App [''isLoggedIn'' \<mapsto> JBool True]) ''/'' = Some Profile \<and>
   element_at (App [''isLoggedIn'' \<mapsto> JBool True]) ''signin'' = Some (Navigate ''/'') \<and>
   pages (App [''isLoggedIn'' \<mapsto> JBool True]) = [Profile] \<and>
   App [''isLoggedIn'' \<mapsto> JStr ''yes'', ''name'' \<mapsto> JStr ''a'']
     = App [''isLoggedIn'' \<mapsto> JBool True] \<and>
   \<not> truthy (useSelector_isLoggedIn Map.empty) \<and>
   element_at (App Map.empty) ''/'' = Some (Navigate ''/signin'') \<and>
   element_at (App Map.empty) ''signin'' = Some SignIn \<and>
   pages (App Map.empty) = [SignIn] \<and>
   App [''isLoggedIn'' \<mapsto> JNum 0] = App Map.empty"
proof -
  let ?on = "[''isLoggedIn'' \<mapsto> JBool True] :: state"
  let ?yes = "[''isLoggedIn'' \<mapsto> JStr ''yes'', ''name'' \<mapsto> JStr ''a''] :: state"
  let ?zero = "[''isLoggedIn'' \<mapsto> JNum 0] :: state"
  have on: "truthy (useSelector_isLoggedIn ?on)"
    by (simp add: useSelector_isLoggedIn_def getprop_def)
  have yes: "truthy (useSelector_isLoggedIn ?yes) = truthy (useSelector_isLoggedIn ?on)"
    by (simp add: useSelector_isLoggedIn_def getprop_def)
  have off: "\<not> truthy (useSelector_isLoggedIn (Map.empty :: state))"
    by (simp add: useSelector_isLoggedIn_def getprop_def)
  have zero: "truthy (useSelector_isLoggedIn ?zero) = truthy (useSelector_isLoggedIn Map.empty)"
    by (simp add: useSelector_isLoggedIn_def getprop_def)
  note T1 = App_determined_by_isLoggedIn [of ?on]
  note T2 = App_determined_by_isLoggedIn [of "Map.empty :: state"]
  have a1: "element_at (App ?on) ''/'' = Some Profile \<and>
      element_at (App ?on) ''signin'' = Some (Navigate ''/'') \<and>
      pages (App ?on) = [Profile]"
    by (rule mp [OF conjunct1 [OF T1] on])
  have a2: "App ?yes = App ?on"
    by (rule mp [OF spec [OF conjunct2 [OF conjunct2 [OF T1]]] yes])
  have b1: "element_at (App Map.empty) ''/'' = Some (Navigate ''/signin'') \<and>
      element_at (App Map.empty) ''signin'' = Some SignIn \<and>
      pages (App Map.empty) = [SignIn]"
    by (rule mp [OF conjunct1 [OF conjunct2 [OF T2]] off])
  have b2: "App ?zero = App Map.empty"
    by (rule mp [OF spec [OF conjunct2 [OF conjunct2 [OF T2]]] zero])
  note a11 = conjunct1 [OF a1] and a12 = conjunct1 [OF conjunct2 [OF a1]]
    and a13 = conjunct2 [OF conjunct2 [OF a1]]
  note b11 = conjunct1 [OF b1] and b12 = conjunct1 [OF conjunct2 [OF b1]]
    and b13 = conjunct2 [OF conjunct2 [OF b1]]
  show ?thesis
    by (intro conjI) (rule on a11 a12 a13 a2 off b11 b12 b13 b2)+
qed

end
